theory Spec2Isabelle
  imports Complex_Main "HOL-Library.Sublist"
begin

section \<open>The Nginx log watcher (watcher.py)\<close>

text \<open>
  A shallow embedding of \<^verbatim>\<open>src/watcher/watcher.py\<close>. The module-level globals
  (\<^verbatim>\<open>last_pool\<close>, \<^verbatim>\<open>request_window\<close>, the two alert timestamps) are the fields of a
  state record that every function takes and returns; what the program prints and what it
  posts to the webhook is appended to an output trace in that record. The wall clock and
  the webhook's answers are oracles indexed by the number of reads made so far.

  Conventions:
  \<^item> a character is a code point below 256 (an Isabelle \<open>char\<close>); file offsets are
    counted in characters, which for an ASCII log is Python's byte offset;
  \<^item> Python floats (\<^verbatim>\<open>time.time()\<close>, the error percentage, the threshold) are
    modelled as real numbers, so rounding is not part of the model;
  \<^item> \<^verbatim>\<open>json.loads(line.strip())\<close> is library code: it is a parameter \<open>loads\<close>
    that returns \<open>None\<close> where the library raises \<^verbatim>\<open>JSONDecodeError\<close>;
  \<^item> the text of an alert is kept as the values interpolated into it (without the
    formatted wall-clock time).
\<close>

subsection \<open>Python values that a decoded log line can hold\<close>

text \<open>
  \<open>JNull\<close> is Python's \<^verbatim>\<open>None\<close>; \<open>JNum\<close> is an \<^verbatim>\<open>int\<close> or a finite
  \<^verbatim>\<open>float\<close> by its numeric value (Python compares the two by value); \<open>JObj\<close> is a
  \<^verbatim>\<open>dict\<close> as the list of its items, looked up from the front.
\<close>

datatype json =
    JNull
  | JBool bool
  | JNum real
  | JStr string
  | JArr "json list"
  | JObj "(string \<times> json) list"

datatype py_error = AttributeError | TypeError | ValueError | OSError

text \<open>Truth value of an object (\<^verbatim>\<open>if x:\<close>, \<^verbatim>\<open>if not x:\<close>).\<close>

fun py_truthy :: "json \<Rightarrow> bool" where
  "py_truthy JNull = False"
| "py_truthy (JBool b) = b"
| "py_truthy (JNum r) = (r \<noteq> 0)"
| "py_truthy (JStr s) = (s \<noteq> [])"
| "py_truthy (JArr xs) = (xs \<noteq> [])"
| "py_truthy (JObj kvs) = (kvs \<noteq> [])"

text \<open>
  Python's \<^verbatim>\<open>==\<close> on these values: \<^verbatim>\<open>True == 1\<close> and \<^verbatim>\<open>1 == 1.0\<close> hold, lists
  compare element by element, dicts item by item regardless of order.
\<close>

fun py_eq :: "json \<Rightarrow> json \<Rightarrow> bool"
  and py_eq_list :: "json list \<Rightarrow> json list \<Rightarrow> bool"
  and py_eq_items :: "(string \<times> json) list \<Rightarrow> (string \<times> json) list \<Rightarrow> bool"
  and py_eq_item :: "json \<Rightarrow> string \<Rightarrow> (string \<times> json) list \<Rightarrow> bool"
where
  "py_eq JNull b = (b = JNull)"
| "py_eq (JBool x) b =
     (case b of JBool y \<Rightarrow> x = y | JNum r \<Rightarrow> of_bool x = r | _ \<Rightarrow> False)"
| "py_eq (JNum r) b =
     (case b of JBool y \<Rightarrow> r = of_bool y | JNum q \<Rightarrow> r = q | _ \<Rightarrow> False)"
| "py_eq (JStr s) b = (b = JStr s)"
| "py_eq (JArr xs) b = (case b of JArr ys \<Rightarrow> py_eq_list xs ys | _ \<Rightarrow> False)"
| "py_eq (JObj xs) b =
     (case b of JObj ys \<Rightarrow> length xs = length ys \<and> py_eq_items xs ys | _ \<Rightarrow> False)"
| "py_eq_list [] ys = (ys = [])"
| "py_eq_list (x # xs) ys =
     (case ys of [] \<Rightarrow> False | y # ys' \<Rightarrow> py_eq x y \<and> py_eq_list xs ys')"
| "py_eq_items [] ys = True"
| "py_eq_items (kv # xs) ys = (py_eq_item (snd kv) (fst kv) ys \<and> py_eq_items xs ys)"
| "py_eq_item v k [] = False"
| "py_eq_item v k (kw # ys) = (if fst kw = k then py_eq v (snd kw) else py_eq_item v k ys)"

text \<open>
  Membership \<^verbatim>\<open>needle in x\<close> for a string needle: substring of a string, element of
  a list, key of a dict; every other operand raises \<^verbatim>\<open>TypeError\<close>.
\<close>

fun py_in :: "string \<Rightarrow> json \<Rightarrow> py_error + bool" where
  "py_in s (JStr t) = Inr (sublist s t)"
| "py_in s (JArr xs) = Inr (list_ex (\<lambda>x. py_eq x (JStr s)) xs)"
| "py_in s (JObj kvs) = Inr (list_ex (\<lambda>kv. fst kv = s) kvs)"
| "py_in s JNull = Inl TypeError"
| "py_in s (JBool b) = Inl TypeError"
| "py_in s (JNum r) = Inl TypeError"

text \<open>\<^verbatim>\<open>d.get(key, default)\<close> on the items of a dict.\<close>

definition dict_get :: "(string \<times> json) list \<Rightarrow> string \<Rightarrow> json \<Rightarrow> json" where
  "dict_get kvs k d = (case map_of kvs k of None \<Rightarrow> d | Some v \<Rightarrow> v)"

subsection \<open>String methods used on the upstream status\<close>

text \<open>\<^verbatim>\<open>s.split(',')\<close>: never empty, \<^verbatim>\<open>''.split(',') == ['']\<close>.\<close>

fun py_split :: "char \<Rightarrow> string \<Rightarrow> string list" where
  "py_split c [] = [[]]"
| "py_split c (x # xs) =
     (if x = c then [] # py_split c xs
      else (case py_split c xs of [] \<Rightarrow> [[x]] | w # ws \<Rightarrow> (x # w) # ws))"

text \<open>
  Whitespace as \<^verbatim>\<open>str.strip()\<close> sees it below code point 256: 9 to 13, 28 to 32,
  133 and 160.
\<close>

definition py_isspace :: "char \<Rightarrow> bool" where
  "py_isspace c =
     (let n = (of_char c :: nat)
      in (9 \<le> n \<and> n \<le> 13) \<or> (28 \<le> n \<and> n \<le> 32) \<or> n = 133 \<or> n = 160)"

definition py_strip :: "string \<Rightarrow> string" where
  "py_strip s = rev (dropWhile py_isspace (rev (dropWhile py_isspace s)))"

text \<open>
  \<^verbatim>\<open>str.isdigit()\<close> accepts the ASCII digits and, below 256, the superscript digits
  178, 179 and 185; \<^verbatim>\<open>int()\<close> accepts only the former of these and raises
  \<^verbatim>\<open>ValueError\<close> on a superscript digit. \<open>py_int\<close> is \<^verbatim>\<open>int()\<close> on the strings
  that passed \<^verbatim>\<open>isdigit()\<close>, the only ones the program gives it.
\<close>

definition ascii_digit :: "char \<Rightarrow> bool" where
  "ascii_digit c = (let n = (of_char c :: nat) in 48 \<le> n \<and> n \<le> 57)"

definition py_isdigit_char :: "char \<Rightarrow> bool" where
  "py_isdigit_char c =
     (let n = (of_char c :: nat) in (48 \<le> n \<and> n \<le> 57) \<or> n = 178 \<or> n = 179 \<or> n = 185)"

definition py_isdigit :: "string \<Rightarrow> bool" where
  "py_isdigit s = (s \<noteq> [] \<and> list_all py_isdigit_char s)"

definition digits_value :: "string \<Rightarrow> nat" where
  "digits_value s = foldl (\<lambda>acc c. 10 * acc + (of_char c - 48)) 0 s"

definition py_int :: "string \<Rightarrow> py_error + nat" where
  "py_int s = (if list_all ascii_digit s then Inr (digits_value s) else Inl ValueError)"

subsection \<open>Configuration, state and the observable trace\<close>

text \<open>
  The environment variables read at import. \<^verbatim>\<open>WINDOW_SIZE\<close> is a natural number: a
  negative one makes \<^verbatim>\<open>deque(maxlen=...)\<close> raise before anything runs.
\<close>

record config =
  SLACK_WEBHOOK_URL :: string
  ERROR_RATE_THRESHOLD :: real
  WINDOW_SIZE :: nat
  ALERT_COOLDOWN_SEC :: int
  MAINTENANCE_MODE :: bool

text \<open>An entry of \<^verbatim>\<open>request_window\<close> (the dict \<^verbatim>\<open>request_info\<close>).\<close>

record request_info =
  r_pool :: json
  r_status :: json
  r_is_error :: bool
  r_time :: json

text \<open>The values interpolated into the two alert texts.\<close>

datatype alert_message =
    FailoverDetected json json
  | HighErrorRate real nat nat json

datatype http_outcome = Response int | RequestException

text \<open>What the program prints, and the one thing it sends: the webhook POST.\<close>

datatype event =
    NoWebhookConfigured alert_message
  | MaintenanceSuppressed alert_message
  | HttpPost string alert_message
  | SlackAlertSent alert_message
  | SlackAlertFailed int
  | SlackAlertError
  | InitialPoolDetected json
  | FailoverPrinted json json
  | HighErrorRatePrinted real nat nat
  | ErrorReadingLog py_error

text \<open>
  The outside world: \<open>clock n\<close> is what the \<open>n\<close>-th call of \<^verbatim>\<open>time.time()\<close> in a
  detector returns, \<open>http n\<close> how the \<open>n\<close>-th \<^verbatim>\<open>requests.post\<close> ends.
\<close>

record env =
  clock :: "nat \<Rightarrow> real"
  http :: "nat \<Rightarrow> http_outcome"

record state =
  last_pool :: json
  request_window :: "request_info list"
  last_failover_alert :: real
  last_error_rate_alert :: real
  clock_reads :: nat
  http_posts :: nat
  out :: "event list"

definition initial_state :: state where
  "initial_state =
     \<lparr>last_pool = JNull, request_window = [], last_failover_alert = 0,
      last_error_rate_alert = 0, clock_reads = 0, http_posts = 0, out = []\<rparr>"

definition emit :: "event \<Rightarrow> state \<Rightarrow> state" where
  "emit e st = st\<lparr>out := out st @ [e]\<rparr>"

subsection \<open>send_slack_alert\<close>

definition colors :: "string \<Rightarrow> string" where
  "colors alert_type =
     (if alert_type = ''failover'' then ''#FFA500''
      else if alert_type = ''error'' then ''#FF0000''
      else if alert_type = ''recovery'' then ''#00FF00''
      else if alert_type = ''info'' then ''#0000FF''
      else ''#808080'')"

definition send_slack_alert ::
  "config \<Rightarrow> env \<Rightarrow> alert_message \<Rightarrow> string \<Rightarrow> state \<Rightarrow> bool \<times> state" where
  "send_slack_alert cfg w message alert_type st =
     (if SLACK_WEBHOOK_URL cfg = [] then (False, emit (NoWebhookConfigured message) st)
      else if MAINTENANCE_MODE cfg \<and> alert_type = ''failover''
      then (False, emit (MaintenanceSuppressed message) st)
      else
        (let st1 = (emit (HttpPost (colors alert_type) message) st)
                     \<lparr>http_posts := Suc (http_posts st)\<rparr>
         in case http w (http_posts st) of
              Response code \<Rightarrow>
                (if code = 200 then (True, emit (SlackAlertSent message) st1)
                 else (False, emit (SlackAlertFailed code) st1))
            | RequestException \<Rightarrow> (False, emit SlackAlertError st1)))"

subsection \<open>check_failover\<close>

definition check_failover :: "config \<Rightarrow> env \<Rightarrow> json \<Rightarrow> state \<Rightarrow> state" where
  "check_failover cfg w current_pool st =
     (if last_pool st = JNull
      then emit (InitialPoolDetected current_pool) (st\<lparr>last_pool := current_pool\<rparr>)
      else if \<not> py_eq current_pool (last_pool st) then
        (let now = clock w (clock_reads st);
             st1 = st\<lparr>clock_reads := Suc (clock_reads st)\<rparr>;
             st2 = (if now - last_failover_alert st1 > real_of_int (ALERT_COOLDOWN_SEC cfg)
                    then (snd (send_slack_alert cfg w
                                 (FailoverDetected (last_pool st1) current_pool)
                                 ''failover'' st1))
                           \<lparr>last_failover_alert := now\<rparr>
                    else st1)
         in (emit (FailoverPrinted (last_pool st2) current_pool) st2)
              \<lparr>last_pool := current_pool\<rparr>)
      else st)"

subsection \<open>check_error_rate\<close>

definition error_count :: "request_info list \<Rightarrow> nat" where
  "error_count win = length (filter r_is_error win)"

definition error_rate :: "request_info list \<Rightarrow> real" where
  "error_rate win = real (error_count win) / real (length win) * 100"

definition check_error_rate :: "config \<Rightarrow> env \<Rightarrow> state \<Rightarrow> state" where
  "check_error_rate cfg w st =
     (if length (request_window st) < 10 then st
      else
        (let errors = error_count (request_window st);
             total_count = length (request_window st);
             rate = error_rate (request_window st)
         in if rate > ERROR_RATE_THRESHOLD cfg then
              (let now = clock w (clock_reads st);
                   st1 = st\<lparr>clock_reads := Suc (clock_reads st)\<rparr>;
                   st2 = (if now - last_error_rate_alert st1
                               > real_of_int (ALERT_COOLDOWN_SEC cfg)
                          then
                            (let current_pool = r_pool (last (request_window st1))
                             in (snd (send_slack_alert cfg w
                                        (HighErrorRate rate errors total_count current_pool)
                                        ''error'' st1))
                                  \<lparr>last_error_rate_alert := now\<rparr>)
                          else st1)
               in emit (HighErrorRatePrinted rate errors total_count) st2)
            else st))"

subsection \<open>The sliding window\<close>

text \<open>
  \<^verbatim>\<open>request_window.append(x)\<close> on a \<^verbatim>\<open>deque(maxlen=WINDOW_SIZE)\<close>: the new entry goes
  to the right end and what exceeds the capacity falls off the left end.
\<close>

definition window_append :: "nat \<Rightarrow> request_info \<Rightarrow> request_info list \<Rightarrow> request_info list" where
  "window_append maxlen x win = (let ys = win @ [x] in drop (length ys - maxlen) ys)"

subsection \<open>The per-line loop body\<close>

text \<open>
  \<^verbatim>\<open>parse_log_line\<close>: the decoded value, or \<^verbatim>\<open>None\<close> when decoding raises
  \<^verbatim>\<open>JSONDecodeError\<close>.
\<close>

definition parse_log_line :: "(string \<Rightarrow> json option) \<Rightarrow> string \<Rightarrow> json" where
  "parse_log_line loads line = (case loads line of None \<Rightarrow> JNull | Some v \<Rightarrow> v)"

text \<open>
  The list comprehension over the comma-separated entries: an entry that passes
  \<^verbatim>\<open>isdigit()\<close> after \<^verbatim>\<open>strip()\<close> is converted by \<^verbatim>\<open>int()\<close>, every other one is
  left out.
\<close>

fun parse_statuses :: "string list \<Rightarrow> py_error + nat list" where
  "parse_statuses [] = Inr []"
| "parse_statuses (s # ss) =
     (if py_isdigit (py_strip s) then
        (case py_int (py_strip s) of
           Inl e \<Rightarrow> Inl e
         | Inr n \<Rightarrow> (case parse_statuses ss of Inl e \<Rightarrow> Inl e | Inr ns \<Rightarrow> Inr (n # ns)))
      else parse_statuses ss)"

text \<open>
  Lines 188 to 192: \<^verbatim>\<open>is_error\<close> from \<^verbatim>\<open>upstream_status\<close>. A truthy value that is
  not a string has no \<^verbatim>\<open>split\<close>.
\<close>

definition compute_is_error :: "json \<Rightarrow> py_error + bool" where
  "compute_is_error upstream_status =
     (if py_truthy upstream_status then
        (case upstream_status of
           JStr s \<Rightarrow>
             (case parse_statuses (py_split CHR '','' s) of
                Inl e \<Rightarrow> Inl e
              | Inr statuses \<Rightarrow> Inr (list_ex (\<lambda>n. n \<ge> 500) statuses))
         | _ \<Rightarrow> Inl AttributeError)
      else Inr False)"

text \<open>
  The body of the second loop from its \<^verbatim>\<open>if not log\<close> on, for the value \<open>logv\<close> bound to
  \<^verbatim>\<open>log\<close>. \<open>Inr\<close> is the state when the iteration ends (by \<^verbatim>\<open>continue\<close> or at its end),
  \<open>Inl\<close> the exception that leaves the loop; nothing is changed before the last point
  that can raise.
\<close>

definition process_log :: "config \<Rightarrow> env \<Rightarrow> json \<Rightarrow> state \<Rightarrow> py_error + state" where
  "process_log cfg w logv st =
     (if \<not> py_truthy logv then Inr st
      else
        (case logv of
           JObj kvs \<Rightarrow>
             (let pool_v = dict_get kvs ''pool'' (JStr []);
                  status_v = dict_get kvs ''status'' (JNum 0);
                  upstream_status = dict_get kvs ''upstream_status'' (JStr []);
                  request = dict_get kvs ''request'' (JStr [])
              in case py_in ''nginx-health'' request of
                   Inl e \<Rightarrow> Inl e
                 | Inr True \<Rightarrow> Inr st
                 | Inr False \<Rightarrow>
                     (case py_in ''healthz'' request of
                        Inl e \<Rightarrow> Inl e
                      | Inr True \<Rightarrow> Inr st
                      | Inr False \<Rightarrow>
                          (case compute_is_error upstream_status of
                             Inl e \<Rightarrow> Inl e
                           | Inr is_error \<Rightarrow>
                               (let request_info =
                                      \<lparr>r_pool = pool_v, r_status = status_v,
                                       r_is_error = is_error,
                                       r_time = dict_get kvs ''time'' (JStr [])\<rparr>;
                                    st1 = st\<lparr>request_window :=
                                             window_append (WINDOW_SIZE cfg) request_info
                                               (request_window st)\<rparr>;
                                    st2 = (if py_truthy pool_v
                                           then check_failover cfg w pool_v st1 else st1)
                                in Inr (check_error_rate cfg w st2)))))
         | _ \<Rightarrow> Inl AttributeError))"

definition process_line ::
  "config \<Rightarrow> env \<Rightarrow> (string \<Rightarrow> json option) \<Rightarrow> string \<Rightarrow> state \<Rightarrow> py_error + state" where
  "process_line cfg w loads line st = process_log cfg w (parse_log_line loads line) st"

subsection \<open>The two loops over a batch of lines\<close>

text \<open>
  Lines 168 to 171: the first loop binds \<^verbatim>\<open>log\<close> and continues, whatever it is.
\<close>

fun first_loop :: "(string \<Rightarrow> json option) \<Rightarrow> string list \<Rightarrow> state \<Rightarrow> state" where
  "first_loop loads [] st = st"
| "first_loop loads (line # lines) st =
     (let logv = parse_log_line loads line
      in if \<not> py_truthy logv then first_loop loads lines st
         else first_loop loads lines st)"

text \<open>
  Lines 172 to 207: the second loop stops at the first exception, which leaves the
  \<^verbatim>\<open>with\<close> block for the handler of the polling loop; the state reached so far stays.
\<close>

fun second_loop ::
  "config \<Rightarrow> env \<Rightarrow> (string \<Rightarrow> json option) \<Rightarrow> string list \<Rightarrow> state
     \<Rightarrow> py_error option \<times> state" where
  "second_loop cfg w loads [] st = (None, st)"
| "second_loop cfg w loads (line # lines) st =
     (case process_line cfg w loads line st of
        Inl e \<Rightarrow> (Some e, st)
      | Inr st' \<Rightarrow> second_loop cfg w loads lines st')"

subsection \<open>Tailing the file\<close>

text \<open>\<^verbatim>\<open>f.readlines()\<close>: the rest of the file cut after every newline.\<close>

fun readlines :: "string \<Rightarrow> string list" where
  "readlines [] = []"
| "readlines (c # cs) =
     (if c = CHR 0x0A then [c] # readlines cs
      else (case readlines cs of [] \<Rightarrow> [[c]] | l # ls \<Rightarrow> (c # l) # ls))"

text \<open>
  One round of \<^verbatim>\<open>while True\<close> (lines 157 to 214). \<open>file\<close> is the file's text at this
  round, \<open>None\<close> when \<^verbatim>\<open>open\<close> raises. \<^verbatim>\<open>f.seek(last_position)\<close> past the end is
  allowed: nothing is read and \<^verbatim>\<open>f.tell()\<close> gives the same offset back.
\<close>

definition poll ::
  "config \<Rightarrow> env \<Rightarrow> (string \<Rightarrow> json option) \<Rightarrow> string option \<Rightarrow> nat \<times> state
     \<Rightarrow> nat \<times> state" where
  "poll cfg w loads file ps =
     (case file of
        None \<Rightarrow> (fst ps, emit (ErrorReadingLog OSError) (snd ps))
      | Some content \<Rightarrow>
          (let lines = readlines (drop (fst ps) content);
               last_position = max (fst ps) (length content);
               st1 = first_loop loads lines (snd ps)
           in case second_loop cfg w loads lines st1 of
                (None, st2) \<Rightarrow> (last_position, st2)
              | (Some e, st2) \<Rightarrow> (last_position, emit (ErrorReadingLog e) st2)))"

text \<open>
  \<^verbatim>\<open>tail_log_file\<close> once the file exists: \<open>existing\<close> is the file when watching
  begins (read and thrown away, lines 149 to 153), \<open>files\<close> what the following rounds
  find. The loop never ends by itself; this is its state after \<open>length files\<close> rounds.
\<close>

definition tail_log_file ::
  "config \<Rightarrow> env \<Rightarrow> (string \<Rightarrow> json option) \<Rightarrow> string option \<Rightarrow> string option list
     \<Rightarrow> state \<Rightarrow> nat \<times> state" where
  "tail_log_file cfg w loads existing files st =
     (let skipped = map_option readlines existing;
          last_position = 0
      in foldl (\<lambda>ps file. poll cfg w loads file ps) (last_position, st) files)"

subsection \<open>Notions used to state the properties\<close>


text \<open>
  A call of \<^verbatim>\<open>send_slack_alert\<close> leaves exactly one of three events first in the
  trace; the message tells which detector made the call. \<open>dispatched k st\<close> counts the
  calls of kind \<open>k\<close> made so far.
\<close>

fun failover_dispatch :: "event \<Rightarrow> bool" where
  "failover_dispatch (NoWebhookConfigured m) = (case m of FailoverDetected a b \<Rightarrow> True | _ \<Rightarrow> False)"
| "failover_dispatch (MaintenanceSuppressed m) = (case m of FailoverDetected a b \<Rightarrow> True | _ \<Rightarrow> False)"
| "failover_dispatch (HttpPost c m) = (case m of FailoverDetected a b \<Rightarrow> True | _ \<Rightarrow> False)"
| "failover_dispatch _ = False"

fun error_rate_dispatch :: "event \<Rightarrow> bool" where
  "error_rate_dispatch (NoWebhookConfigured m) = (case m of HighErrorRate r e t p \<Rightarrow> True | _ \<Rightarrow> False)"
| "error_rate_dispatch (MaintenanceSuppressed m) = (case m of HighErrorRate r e t p \<Rightarrow> True | _ \<Rightarrow> False)"
| "error_rate_dispatch (HttpPost c m) = (case m of HighErrorRate r e t p \<Rightarrow> True | _ \<Rightarrow> False)"
| "error_rate_dispatch _ = False"

definition dispatched :: "(event \<Rightarrow> bool) \<Rightarrow> state \<Rightarrow> nat" where
  "dispatched k st = length (filter k (out st))"

text \<open>The error-rate detector sees a breach: enough samples and a rate above the threshold.\<close>

definition breach :: "config \<Rightarrow> state \<Rightarrow> bool" where
  "breach cfg st \<longleftrightarrow> 10 \<le> length (request_window st) \<and>
     error_rate (request_window st) > ERROR_RATE_THRESHOLD cfg"

text \<open>
  Lines 194 to 204 for a dict \<open>kvs\<close> that is not a health check and whose
  \<^verbatim>\<open>is_error\<close> is \<open>e\<close>: the state once the entry is appended and the failover
  check is done, which \<^verbatim>\<open>check_error_rate\<close> is then called on.
\<close>

definition accepted_state :: "config \<Rightarrow> env \<Rightarrow> (string \<times> json) list \<Rightarrow> bool \<Rightarrow> state \<Rightarrow> state" where
  "accepted_state cfg w kvs e st =
     (let st1 = st\<lparr>request_window :=
                   window_append (WINDOW_SIZE cfg)
                     \<lparr>r_pool = dict_get kvs ''pool'' (JStr []),
                      r_status = dict_get kvs ''status'' (JNum 0),
                      r_is_error = e,
                      r_time = dict_get kvs ''time'' (JStr [])\<rparr>
                     (request_window st)\<rparr>
      in if py_truthy (dict_get kvs ''pool'' (JStr []))
         then check_failover cfg w (dict_get kvs ''pool'' (JStr [])) st1 else st1)"

text \<open>The events that are a delivery attempt.\<close>

fun is_post :: "event \<Rightarrow> bool" where
  "is_post (HttpPost c m) = True"
| "is_post _ = False"




text \<open>
  A line that decodes to a dict whose \<^verbatim>\<open>request\<close> is a string holding one of the two
  health-check markers.
\<close>

definition health_check_line :: "(string \<Rightarrow> json option) \<Rightarrow> string \<Rightarrow> bool" where
  "health_check_line loads line =
     (case loads line of
        Some (JObj kvs) \<Rightarrow>
          (case dict_get kvs ''request'' (JStr []) of
             JStr r \<Rightarrow> sublist ''nginx-health'' r \<or> sublist ''healthz'' r
           | _ \<Rightarrow> False)
      | _ \<Rightarrow> False)"



subsection \<open>A concrete configuration, world and decoder\<close>

text \<open>
  The defaults of the module with a webhook set, a clock that advances 100 seconds per
  reading, a webhook that answers 200, and a decoder that agrees with \<^verbatim>\<open>json.loads\<close> on
  the lines of the examples.
\<close>

definition demo_config :: config where
  "demo_config =
     \<lparr>SLACK_WEBHOOK_URL = ''https://hooks.slack.test/services/T'', ERROR_RATE_THRESHOLD = 2,
      WINDOW_SIZE = 200, ALERT_COOLDOWN_SEC = 300, MAINTENANCE_MODE = False\<rparr>"

definition demo_env :: env where
  "demo_env = \<lparr>clock = (\<lambda>n. 1000 + 100 * real n), http = (\<lambda>n. Response 200)\<rparr>"

definition demo_loads :: "string \<Rightarrow> json option" where
  "demo_loads line =
     (let s = py_strip line
      in if s = ''{\"pool\":\"blue\",\"upstream_status\":\"200\"}''
         then Some (JObj [(''pool'', JStr ''blue''), (''upstream_status'', JStr ''200'')])
         else if s = ''{\"request\":\"GET /healthz HTTP/1.1\",\"pool\":\"green\",\"upstream_status\":\"502\"}''
         then Some (JObj [(''request'', JStr ''GET /healthz HTTP/1.1''),
                          (''pool'', JStr ''green''), (''upstream_status'', JStr ''502'')])
         else if s = ''{\"a\":1}'' then Some (JObj [(''a'', JNum 1)])
         else if s = ''{}'' then Some (JObj [])
         else if s = ''[1]'' then Some (JArr [JNum 1])
         else None)"

text \<open>
  A window of ten requests, the most recent one an error; a state that holds it; and a
  world whose clock advances 1000 seconds per reading and whose webhook cannot be reached.
\<close>

definition demo_record :: "bool \<Rightarrow> request_info" where
  "demo_record e = \<lparr>r_pool = JStr ''blue'', r_status = JNum 200, r_is_error = e, r_time = JStr []\<rparr>"

definition demo_window :: "request_info list" where
  "demo_window =
     [demo_record False, demo_record False, demo_record False, demo_record False,
      demo_record False, demo_record False, demo_record False, demo_record False,
      demo_record False, demo_record True]"

definition demo_breach_state :: state where
  "demo_breach_state = initial_state\<lparr>last_pool := JStr ''blue'', request_window := demo_window\<rparr>"

definition slow_env :: env where
  "slow_env = \<lparr>clock = (\<lambda>n. 1000 + 1000 * real n), http = (\<lambda>n. RequestException)\<rparr>"

text \<open>A log file of one line.\<close>

definition demo_file :: string where
  "demo_file = ''{\"pool\":\"blue\",\"upstream_status\":\"200\"}\<newline>''"

section \<open>Properties\<close>

subsection \<open>What the helpers leave alone\<close>

lemma send_slack_alert_frame:
  "last_pool (snd (send_slack_alert cfg w m t st)) = last_pool st"
  "request_window (snd (send_slack_alert cfg w m t st)) = request_window st"
  "last_failover_alert (snd (send_slack_alert cfg w m t st)) = last_failover_alert st"
  "last_error_rate_alert (snd (send_slack_alert cfg w m t st)) = last_error_rate_alert st"
  "clock_reads (snd (send_slack_alert cfg w m t st)) = clock_reads st"
  by (simp_all add: send_slack_alert_def emit_def Let_def split: http_outcome.splits)

lemma emit_frame [simp]:
  "last_pool (emit e st) = last_pool st"
  "request_window (emit e st) = request_window st"
  "last_failover_alert (emit e st) = last_failover_alert st"
  "last_error_rate_alert (emit e st) = last_error_rate_alert st"
  "clock_reads (emit e st) = clock_reads st"
  "http_posts (emit e st) = http_posts st"
  "out (emit e st) = out st @ [e]"
  by (simp_all add: emit_def)

lemma send_slack_alert_dispatched:
  "dispatched failover_dispatch (snd (send_slack_alert cfg w (FailoverDetected a b) t st)) =
     Suc (dispatched failover_dispatch st)"
  "dispatched error_rate_dispatch (snd (send_slack_alert cfg w (FailoverDetected a b) t st)) =
     dispatched error_rate_dispatch st"
  "dispatched error_rate_dispatch (snd (send_slack_alert cfg w (HighErrorRate r e n q) t st)) =
     Suc (dispatched error_rate_dispatch st)"
  "dispatched failover_dispatch (snd (send_slack_alert cfg w (HighErrorRate r e n q) t st)) =
     dispatched failover_dispatch st"
  by (simp_all add: send_slack_alert_def dispatched_def emit_def Let_def split: http_outcome.splits)

lemma dispatched_update [simp]:
  "dispatched k (st\<lparr>clock_reads := c\<rparr>) = dispatched k st"
  "dispatched k (st\<lparr>last_failover_alert := t\<rparr>) = dispatched k st"
  "dispatched k (st\<lparr>last_error_rate_alert := t\<rparr>) = dispatched k st"
  "dispatched k (st\<lparr>last_pool := p\<rparr>) = dispatched k st"
  by (simp_all add: dispatched_def)

lemma dispatched_emit:
  "dispatched k (emit e st) = (if k e then Suc (dispatched k st) else dispatched k st)"
  by (simp add: dispatched_def emit_def)

subsection \<open>C1: the failover detector\<close>









subsection \<open>C7: maintenance mode\<close>

lemma send_slack_alert_suppressed:
  "MAINTENANCE_MODE cfg \<Longrightarrow>
   send_slack_alert cfg w m ''failover'' st =
     (False, emit (if SLACK_WEBHOOK_URL cfg = [] then NoWebhookConfigured m
                   else MaintenanceSuppressed m) st)"
  by (simp add: send_slack_alert_def)

lemma send_slack_alert_error_maintenance:
  "send_slack_alert (cfg\<lparr>MAINTENANCE_MODE := True\<rparr>) w m ''error'' st =
   send_slack_alert (cfg\<lparr>MAINTENANCE_MODE := False\<rparr>) w m ''error'' st"
  by (simp add: send_slack_alert_def)

lemma send_slack_alert_attempt:
  "SLACK_WEBHOOK_URL cfg \<noteq> [] \<Longrightarrow> \<not> (MAINTENANCE_MODE cfg \<and> t = ''failover'') \<Longrightarrow>
   send_slack_alert cfg w m t st =
     (http w (http_posts st) = Response 200,
      st\<lparr>http_posts := Suc (http_posts st),
         out := out st @ [HttpPost (colors t) m,
                  (case http w (http_posts st) of
                     Response code \<Rightarrow> if code = 200 then SlackAlertSent m else SlackAlertFailed code
                   | RequestException \<Rightarrow> SlackAlertError)]\<rparr>)"
  by (auto simp add: send_slack_alert_def emit_def Let_def split: http_outcome.splits)

lemma check_failover_maintenance_posts:
  "MAINTENANCE_MODE cfg \<Longrightarrow>
   http_posts (check_failover cfg w p st) = http_posts st \<and>
   filter is_post (out (check_failover cfg w p st)) = filter is_post (out st)"
  by (simp add: check_failover_def send_slack_alert_suppressed emit_def Let_def)

lemma check_error_rate_posts:
  "SLACK_WEBHOOK_URL cfg \<noteq> [] \<Longrightarrow> 10 \<le> length (request_window st) \<Longrightarrow>
   error_rate (request_window st) > ERROR_RATE_THRESHOLD cfg \<Longrightarrow>
   clock w (clock_reads st) - last_error_rate_alert st > real_of_int (ALERT_COOLDOWN_SEC cfg) \<Longrightarrow>
   http_posts (check_error_rate cfg w st) = Suc (http_posts st) \<and>
   filter is_post (out (check_error_rate cfg w st)) =
     filter is_post (out st) @
       [HttpPost ''#FF0000''
          (HighErrorRate (error_rate (request_window st)) (error_count (request_window st))
             (length (request_window st)) (r_pool (last (request_window st))))]"
  by (simp add: check_error_rate_def send_slack_alert_attempt emit_def Let_def colors_def
      split: http_outcome.splits)

text \<open>
  Claim C7. With \<^verbatim>\<open>MAINTENANCE_MODE\<close> set, \<^verbatim>\<open>send_slack_alert\<close> called for a
  failover makes no POST and returns \<^verbatim>\<open>False\<close>, so \<^verbatim>\<open>check_failover\<close> never adds a
  POST to the trace. The error-rate detector calls it with the type \<^verbatim>\<open>"error"\<close>, for
  which the flag changes nothing: with a webhook configured the call makes one POST and
  returns whether the answer was 200, and \<^verbatim>\<open>check_error_rate\<close> past its cooldown makes that
  POST. With the flag off and a webhook configured a failover alert is posted the same way.
\<close>

theorem maintenance_mode_asymmetric:
  "(MAINTENANCE_MODE cfg \<longrightarrow>
      send_slack_alert cfg w m ''failover'' st =
        (False, emit (if SLACK_WEBHOOK_URL cfg = [] then NoWebhookConfigured m
                      else MaintenanceSuppressed m) st)
      \<and> http_posts (check_failover cfg w p st) = http_posts st
      \<and> filter is_post (out (check_failover cfg w p st)) = filter is_post (out st))
   \<and> send_slack_alert (cfg\<lparr>MAINTENANCE_MODE := True\<rparr>) w m ''error'' st =
       send_slack_alert (cfg\<lparr>MAINTENANCE_MODE := False\<rparr>) w m ''error'' st
   \<and> (SLACK_WEBHOOK_URL cfg \<noteq> [] \<longrightarrow>
        send_slack_alert cfg w m ''error'' st =
          (http w (http_posts st) = Response 200,
           st\<lparr>http_posts := Suc (http_posts st),
              out := out st @ [HttpPost ''#FF0000'' m,
                (case http w (http_posts st) of
                   Response code \<Rightarrow> if code = 200 then SlackAlertSent m else SlackAlertFailed code
                 | RequestException \<Rightarrow> SlackAlertError)]\<rparr>))
   \<and> (SLACK_WEBHOOK_URL cfg \<noteq> [] \<and> 10 \<le> length (request_window st)
        \<and> error_rate (request_window st) > ERROR_RATE_THRESHOLD cfg
        \<and> clock w (clock_reads st) - last_error_rate_alert st
             > real_of_int (ALERT_COOLDOWN_SEC cfg) \<longrightarrow>
        http_posts (check_error_rate cfg w st) = Suc (http_posts st))
   \<and> (SLACK_WEBHOOK_URL cfg \<noteq> [] \<and> \<not> MAINTENANCE_MODE cfg \<longrightarrow>
        send_slack_alert cfg w m ''failover'' st =
          (http w (http_posts st) = Response 200,
           st\<lparr>http_posts := Suc (http_posts st),
              out := out st @ [HttpPost ''#FFA500'' m,
                (case http w (http_posts st) of
                   Response code \<Rightarrow> if code = 200 then SlackAlertSent m else SlackAlertFailed code
                 | RequestException \<Rightarrow> SlackAlertError)]\<rparr>))"
proof -
  have err: "SLACK_WEBHOOK_URL cfg \<noteq> [] \<Longrightarrow>
      send_slack_alert cfg w m ''error'' st =
          (http w (http_posts st) = Response 200,
           st\<lparr>http_posts := Suc (http_posts st),
              out := out st @ [HttpPost ''#FF0000'' m,
                (case http w (http_posts st) of
                   Response code \<Rightarrow> if code = 200 then SlackAlertSent m else SlackAlertFailed code
                 | RequestException \<Rightarrow> SlackAlertError)]\<rparr>)"
    using send_slack_alert_attempt [of cfg "''error''" w m st] by (simp add: colors_def)
  have fo: "SLACK_WEBHOOK_URL cfg \<noteq> [] \<Longrightarrow> \<not> MAINTENANCE_MODE cfg \<Longrightarrow>
      send_slack_alert cfg w m ''failover'' st =
          (http w (http_posts st) = Response 200,
           st\<lparr>http_posts := Suc (http_posts st),
              out := out st @ [HttpPost ''#FFA500'' m,
                (case http w (http_posts st) of
                   Response code \<Rightarrow> if code = 200 then SlackAlertSent m else SlackAlertFailed code
                 | RequestException \<Rightarrow> SlackAlertError)]\<rparr>)"
    using send_slack_alert_attempt [of cfg "''failover''" w m st] by (simp add: colors_def)
  show ?thesis
    using err fo send_slack_alert_suppressed [of cfg w m st]
      check_failover_maintenance_posts [of cfg w p st]
      send_slack_alert_error_maintenance [of cfg w m st]
      check_error_rate_posts [of cfg st w]
    by blast
qed

theorem maintenance_mode_asymmetric_witness:
  "send_slack_alert (demo_config\<lparr>MAINTENANCE_MODE := True\<rparr>) demo_env
     (FailoverDetected (JStr ''blue'') (JStr ''green'')) ''failover'' demo_breach_state =
     (False, emit (MaintenanceSuppressed (FailoverDetected (JStr ''blue'') (JStr ''green'')))
               demo_breach_state)
   \<and> http_posts (check_failover (demo_config\<lparr>MAINTENANCE_MODE := True\<rparr>) demo_env
        (JStr ''green'') demo_breach_state) = 0
   \<and> http_posts (check_error_rate (demo_config\<lparr>MAINTENANCE_MODE := True\<rparr>) demo_env
        demo_breach_state) = 1
   \<and> fst (send_slack_alert (demo_config\<lparr>MAINTENANCE_MODE := True\<rparr>) demo_env
        (FailoverDetected (JStr ''blue'') (JStr ''green'')) ''error'' demo_breach_state) = True
   \<and> send_slack_alert demo_config demo_env
        (FailoverDetected (JStr ''blue'') (JStr ''green'')) ''failover'' demo_breach_state =
      (True, demo_breach_state\<lparr>http_posts := 1,
          out := [HttpPost ''#FFA500'' (FailoverDetected (JStr ''blue'') (JStr ''green'')),
                  SlackAlertSent (FailoverDetected (JStr ''blue'') (JStr ''green''))]\<rparr>)"
  using maintenance_mode_asymmetric
          [where cfg="demo_config\<lparr>MAINTENANCE_MODE := True\<rparr>" and w=demo_env
             and m="FailoverDetected (JStr ''blue'') (JStr ''green'')"
             and st=demo_breach_state and p="JStr ''green''"]
        maintenance_mode_asymmetric
          [where cfg=demo_config and w=demo_env
             and m="FailoverDetected (JStr ''blue'') (JStr ''green'')"
             and st=demo_breach_state and p="JStr ''green''"]
  by (simp add: demo_config_def demo_env_def demo_breach_state_def initial_state_def
      demo_window_def demo_record_def error_rate_def error_count_def)

subsection \<open>C3: the cooldown of each alert\<close>

lemma check_failover_fire:
  assumes "last_pool st \<noteq> JNull" "\<not> py_eq p (last_pool st)"
    and "clock w (clock_reads st) - last_failover_alert st > real_of_int (ALERT_COOLDOWN_SEC cfg)"
  shows "last_failover_alert (check_failover cfg w p st) = clock w (clock_reads st)"
    and "dispatched failover_dispatch (check_failover cfg w p st) =
           Suc (dispatched failover_dispatch st)"
  using assms
  by (simp_all add: check_failover_def Let_def send_slack_alert_frame
      send_slack_alert_dispatched dispatched_emit)

lemma check_failover_hold:
  assumes "last_pool st \<noteq> JNull" "\<not> py_eq p (last_pool st)"
    and "clock w (clock_reads st) - last_failover_alert st \<le> real_of_int (ALERT_COOLDOWN_SEC cfg)"
  shows "last_failover_alert (check_failover cfg w p st) = last_failover_alert st"
    and "dispatched failover_dispatch (check_failover cfg w p st) =
           dispatched failover_dispatch st"
  using assms
  by (simp_all add: check_failover_def Let_def dispatched_emit)

lemma check_failover_clock_reads:
  "last_pool st \<noteq> JNull \<Longrightarrow> \<not> py_eq p (last_pool st) \<Longrightarrow>
   clock_reads (check_failover cfg w p st) = Suc (clock_reads st)"
  by (simp add: check_failover_def Let_def send_slack_alert_frame emit_def)

lemma check_failover_other_kind:
  "last_error_rate_alert (check_failover cfg w p st) = last_error_rate_alert st"
  "dispatched error_rate_dispatch (check_failover cfg w p st) =
     dispatched error_rate_dispatch st"
  by (simp_all add: check_failover_def Let_def send_slack_alert_frame
      send_slack_alert_dispatched dispatched_emit)

lemma check_failover_last_pool:
  "last_pool st \<noteq> JNull \<Longrightarrow> \<not> py_eq p (last_pool st) \<Longrightarrow>
   last_pool (check_failover cfg w p st) = p"
  by (simp add: check_failover_def emit_def Let_def send_slack_alert_frame)

lemma check_error_rate_fire:
  assumes "breach cfg st"
    and "clock w (clock_reads st) - last_error_rate_alert st > real_of_int (ALERT_COOLDOWN_SEC cfg)"
  shows "last_error_rate_alert (check_error_rate cfg w st) = clock w (clock_reads st)"
    and "dispatched error_rate_dispatch (check_error_rate cfg w st) =
           Suc (dispatched error_rate_dispatch st)"
  using assms
  by (simp_all add: check_error_rate_def breach_def Let_def send_slack_alert_frame
      send_slack_alert_dispatched dispatched_emit)

lemma check_error_rate_hold:
  assumes "breach cfg st"
    and "clock w (clock_reads st) - last_error_rate_alert st \<le> real_of_int (ALERT_COOLDOWN_SEC cfg)"
  shows "last_error_rate_alert (check_error_rate cfg w st) = last_error_rate_alert st"
    and "dispatched error_rate_dispatch (check_error_rate cfg w st) =
           dispatched error_rate_dispatch st"
  using assms
  by (simp_all add: check_error_rate_def breach_def Let_def dispatched_emit)

lemma check_error_rate_other_kind:
  "last_failover_alert (check_error_rate cfg w st) = last_failover_alert st"
  "dispatched failover_dispatch (check_error_rate cfg w st) = dispatched failover_dispatch st"
  by (simp_all add: check_error_rate_def Let_def send_slack_alert_frame
      send_slack_alert_dispatched dispatched_emit)

lemma check_error_rate_window:
  "request_window (check_error_rate cfg w st) = request_window st"
  by (simp add: check_error_rate_def Let_def send_slack_alert_frame emit_def)

lemma check_error_rate_clock_reads:
  "breach cfg st \<Longrightarrow> clock_reads (check_error_rate cfg w st) = Suc (clock_reads st)"
  by (simp add: check_error_rate_def breach_def Let_def send_slack_alert_frame emit_def)

lemma breach_check_error_rate: "breach cfg (check_error_rate cfg w st) = breach cfg st"
  by (simp add: breach_def check_error_rate_window)

lemma two_failovers:
  assumes lp: "last_pool st \<noteq> JNull" and p1: "p1 \<noteq> JNull"
    and d1: "\<not> py_eq p1 (last_pool st)" and d2: "\<not> py_eq p2 p1"
    and fire: "clock w (clock_reads st) - last_failover_alert st
                 > real_of_int (ALERT_COOLDOWN_SEC cfg)"
  shows "clock w (Suc (clock_reads st)) - clock w (clock_reads st)
           \<le> real_of_int (ALERT_COOLDOWN_SEC cfg) \<Longrightarrow>
         dispatched failover_dispatch (check_failover cfg w p2 (check_failover cfg w p1 st)) =
           Suc (dispatched failover_dispatch st)"
    and "clock w (Suc (clock_reads st)) - clock w (clock_reads st)
           > real_of_int (ALERT_COOLDOWN_SEC cfg) \<Longrightarrow>
         dispatched failover_dispatch (check_failover cfg w p2 (check_failover cfg w p1 st)) =
           Suc (Suc (dispatched failover_dispatch st))"
proof -
  let ?s1 = "check_failover cfg w p1 st"
  have a: "last_pool ?s1 = p1" using lp d1 by (rule check_failover_last_pool)
  have b: "clock_reads ?s1 = Suc (clock_reads st)" using lp d1 by (rule check_failover_clock_reads)
  have c: "last_failover_alert ?s1 = clock w (clock_reads st)"
    using lp d1 fire by (rule check_failover_fire)
  have d: "dispatched failover_dispatch ?s1 = Suc (dispatched failover_dispatch st)"
    using lp d1 fire by (rule check_failover_fire)
  have lp1: "last_pool ?s1 \<noteq> JNull" and d2': "\<not> py_eq p2 (last_pool ?s1)"
    using a p1 d2 by simp_all
  show "clock w (Suc (clock_reads st)) - clock w (clock_reads st)
           \<le> real_of_int (ALERT_COOLDOWN_SEC cfg) \<Longrightarrow>
         dispatched failover_dispatch (check_failover cfg w p2 ?s1) =
           Suc (dispatched failover_dispatch st)"
    using check_failover_hold(2) [OF lp1 d2', of w cfg] b c d by simp
  show "clock w (Suc (clock_reads st)) - clock w (clock_reads st)
           > real_of_int (ALERT_COOLDOWN_SEC cfg) \<Longrightarrow>
         dispatched failover_dispatch (check_failover cfg w p2 ?s1) =
           Suc (Suc (dispatched failover_dispatch st))"
    using check_failover_fire(2) [OF lp1 d2', of cfg w] b c d by simp
qed

lemma two_error_rates:
  assumes br: "breach cfg st"
    and fire: "clock w (clock_reads st) - last_error_rate_alert st
                 > real_of_int (ALERT_COOLDOWN_SEC cfg)"
  shows "clock w (Suc (clock_reads st)) - clock w (clock_reads st)
           \<le> real_of_int (ALERT_COOLDOWN_SEC cfg) \<Longrightarrow>
         dispatched error_rate_dispatch (check_error_rate cfg w (check_error_rate cfg w st)) =
           Suc (dispatched error_rate_dispatch st)"
    and "clock w (Suc (clock_reads st)) - clock w (clock_reads st)
           > real_of_int (ALERT_COOLDOWN_SEC cfg) \<Longrightarrow>
         dispatched error_rate_dispatch (check_error_rate cfg w (check_error_rate cfg w st)) =
           Suc (Suc (dispatched error_rate_dispatch st))"
proof -
  let ?s1 = "check_error_rate cfg w st"
  have br1: "breach cfg ?s1" using br by (simp add: breach_check_error_rate)
  have b: "clock_reads ?s1 = Suc (clock_reads st)" using br by (rule check_error_rate_clock_reads)
  have c: "last_error_rate_alert ?s1 = clock w (clock_reads st)"
    using br fire by (rule check_error_rate_fire)
  have d: "dispatched error_rate_dispatch ?s1 = Suc (dispatched error_rate_dispatch st)"
    using br fire by (rule check_error_rate_fire)
  show "clock w (Suc (clock_reads st)) - clock w (clock_reads st)
           \<le> real_of_int (ALERT_COOLDOWN_SEC cfg) \<Longrightarrow>
         dispatched error_rate_dispatch (check_error_rate cfg w ?s1) =
           Suc (dispatched error_rate_dispatch st)"
    using check_error_rate_hold(2) [OF br1, of w] b c d by simp
  show "clock w (Suc (clock_reads st)) - clock w (clock_reads st)
           > real_of_int (ALERT_COOLDOWN_SEC cfg) \<Longrightarrow>
         dispatched error_rate_dispatch (check_error_rate cfg w ?s1) =
           Suc (Suc (dispatched error_rate_dispatch st))"
    using check_error_rate_fire(2) [OF br1, of w] b c d by simp
qed

text \<open>
  Claim C3. Each detector reads the clock when its condition holds and calls
  \<^verbatim>\<open>send_slack_alert\<close> exactly when more than \<^verbatim>\<open>ALERT_COOLDOWN_SEC\<close> seconds have passed
  since its own timestamp; the timestamp then becomes that reading, whatever the webhook
  answers (the statement holds for every world \<open>w\<close>). Otherwise neither the timestamp
  nor the number of calls changes. A detector never changes the other one's timestamp or
  number of calls. Hence of two consecutive alerts of one kind, the first dispatched, the
  second is dispatched exactly when it comes more than the cooldown after the first.
\<close>

theorem alert_cooldown_gate:
  "(last_pool st \<noteq> JNull \<and> \<not> py_eq p (last_pool st) \<longrightarrow>
      (clock w (clock_reads st) - last_failover_alert st > real_of_int (ALERT_COOLDOWN_SEC cfg) \<longrightarrow>
         last_failover_alert (check_failover cfg w p st) = clock w (clock_reads st)
         \<and> dispatched failover_dispatch (check_failover cfg w p st) =
             Suc (dispatched failover_dispatch st))
      \<and> (clock w (clock_reads st) - last_failover_alert st \<le> real_of_int (ALERT_COOLDOWN_SEC cfg) \<longrightarrow>
         last_failover_alert (check_failover cfg w p st) = last_failover_alert st
         \<and> dispatched failover_dispatch (check_failover cfg w p st) =
             dispatched failover_dispatch st))
   \<and> (breach cfg st \<longrightarrow>
      (clock w (clock_reads st) - last_error_rate_alert st > real_of_int (ALERT_COOLDOWN_SEC cfg) \<longrightarrow>
         last_error_rate_alert (check_error_rate cfg w st) = clock w (clock_reads st)
         \<and> dispatched error_rate_dispatch (check_error_rate cfg w st) =
             Suc (dispatched error_rate_dispatch st))
      \<and> (clock w (clock_reads st) - last_error_rate_alert st \<le> real_of_int (ALERT_COOLDOWN_SEC cfg) \<longrightarrow>
         last_error_rate_alert (check_error_rate cfg w st) = last_error_rate_alert st
         \<and> dispatched error_rate_dispatch (check_error_rate cfg w st) =
             dispatched error_rate_dispatch st))
   \<and> last_error_rate_alert (check_failover cfg w p st) = last_error_rate_alert st
   \<and> dispatched error_rate_dispatch (check_failover cfg w p st) = dispatched error_rate_dispatch st
   \<and> last_failover_alert (check_error_rate cfg w st) = last_failover_alert st
   \<and> dispatched failover_dispatch (check_error_rate cfg w st) = dispatched failover_dispatch st
   \<and> (last_pool st \<noteq> JNull \<and> p \<noteq> JNull \<and> \<not> py_eq p (last_pool st) \<and> \<not> py_eq p2 p
        \<and> clock w (clock_reads st) - last_failover_alert st > real_of_int (ALERT_COOLDOWN_SEC cfg) \<longrightarrow>
        dispatched failover_dispatch (check_failover cfg w p2 (check_failover cfg w p st)) =
          (if clock w (Suc (clock_reads st)) - clock w (clock_reads st)
                \<le> real_of_int (ALERT_COOLDOWN_SEC cfg)
           then Suc (dispatched failover_dispatch st)
           else Suc (Suc (dispatched failover_dispatch st))))
   \<and> (breach cfg st
        \<and> clock w (clock_reads st) - last_error_rate_alert st > real_of_int (ALERT_COOLDOWN_SEC cfg) \<longrightarrow>
        dispatched error_rate_dispatch (check_error_rate cfg w (check_error_rate cfg w st)) =
          (if clock w (Suc (clock_reads st)) - clock w (clock_reads st)
                \<le> real_of_int (ALERT_COOLDOWN_SEC cfg)
           then Suc (dispatched error_rate_dispatch st)
           else Suc (Suc (dispatched error_rate_dispatch st))))"
proof -
  have f2: "last_pool st \<noteq> JNull \<and> p \<noteq> JNull \<and> \<not> py_eq p (last_pool st) \<and> \<not> py_eq p2 p
        \<and> clock w (clock_reads st) - last_failover_alert st > real_of_int (ALERT_COOLDOWN_SEC cfg) \<longrightarrow>
        dispatched failover_dispatch (check_failover cfg w p2 (check_failover cfg w p st)) =
          (if clock w (Suc (clock_reads st)) - clock w (clock_reads st)
                \<le> real_of_int (ALERT_COOLDOWN_SEC cfg)
           then Suc (dispatched failover_dispatch st)
           else Suc (Suc (dispatched failover_dispatch st)))"
    using two_failovers [where st=st and ?p1.0=p and ?p2.0=p2 and w=w and cfg=cfg] by (simp add: not_le)
  have e2: "breach cfg st
        \<and> clock w (clock_reads st) - last_error_rate_alert st > real_of_int (ALERT_COOLDOWN_SEC cfg) \<longrightarrow>
        dispatched error_rate_dispatch (check_error_rate cfg w (check_error_rate cfg w st)) =
          (if clock w (Suc (clock_reads st)) - clock w (clock_reads st)
                \<le> real_of_int (ALERT_COOLDOWN_SEC cfg)
           then Suc (dispatched error_rate_dispatch st)
           else Suc (Suc (dispatched error_rate_dispatch st)))"
    using two_error_rates [where st=st and w=w and cfg=cfg] by (simp add: not_le)
  show ?thesis
    using f2 e2 check_failover_fire [where st=st and p=p and w=w and cfg=cfg]
      check_failover_hold [where st=st and p=p and w=w and cfg=cfg]
      check_error_rate_fire [where st=st and w=w and cfg=cfg]
      check_error_rate_hold [where st=st and w=w and cfg=cfg]
      check_failover_other_kind [where st=st and p=p and w=w and cfg=cfg]
      check_error_rate_other_kind [where st=st and w=w and cfg=cfg]
    by blast
qed

lemma demo_breach: "breach demo_config demo_breach_state"
  by (simp add: breach_def demo_config_def demo_breach_state_def demo_window_def
      error_rate_def error_count_def demo_record_def)

theorem alert_cooldown_gate_witness:
  "dispatched failover_dispatch
     (check_failover demo_config demo_env (JStr ''blue'')
        (check_failover demo_config demo_env (JStr ''green'') demo_breach_state)) = 1
   \<and> dispatched failover_dispatch
       (check_failover demo_config slow_env (JStr ''blue'')
          (check_failover demo_config slow_env (JStr ''green'') demo_breach_state)) = 2
   \<and> last_failover_alert (check_failover demo_config slow_env (JStr ''green'') demo_breach_state) = 1000
   \<and> last_error_rate_alert (check_failover demo_config slow_env (JStr ''green'') demo_breach_state) = 0
   \<and> dispatched error_rate_dispatch
       (check_error_rate demo_config demo_env
          (check_error_rate demo_config demo_env demo_breach_state)) = 1
   \<and> dispatched error_rate_dispatch
       (check_error_rate demo_config slow_env
          (check_error_rate demo_config slow_env demo_breach_state)) = 2
   \<and> last_error_rate_alert (check_error_rate demo_config slow_env demo_breach_state) = 1000
   \<and> last_failover_alert (check_error_rate demo_config slow_env demo_breach_state) = 0
   \<and> last_failover_alert
       (check_failover demo_config demo_env (JStr ''green'')
          (demo_breach_state\<lparr>last_failover_alert := 900\<rparr>)) = 900"
  using alert_cooldown_gate
          [where st=demo_breach_state and p="JStr ''green''" and w=demo_env
             and cfg=demo_config and ?p2.0="JStr ''blue''"]
        alert_cooldown_gate
          [where st=demo_breach_state and p="JStr ''green''" and w=slow_env
             and cfg=demo_config and ?p2.0="JStr ''blue''"]
        alert_cooldown_gate
          [where st="demo_breach_state\<lparr>last_failover_alert := 900\<rparr>" and p="JStr ''green''"
             and w=demo_env and cfg=demo_config and ?p2.0="JStr ''blue''"]
        demo_breach
  by (simp add: demo_breach_state_def initial_state_def demo_config_def demo_env_def
      slow_env_def dispatched_def)

subsection \<open>C2: the error-rate detector\<close>











lemma check_failover_window:
  "request_window (check_failover cfg w p st) = request_window st"
  by (simp add: check_failover_def Let_def send_slack_alert_frame)

lemma process_log_accept:
  assumes "kvs \<noteq> []"
    and "py_in ''nginx-health'' (dict_get kvs ''request'' (JStr [])) = Inr False"
    and "py_in ''healthz'' (dict_get kvs ''request'' (JStr [])) = Inr False"
    and "compute_is_error (dict_get kvs ''upstream_status'' (JStr [])) = Inr e"
  shows "process_log cfg w (JObj kvs) st = Inr (check_error_rate cfg w (accepted_state cfg w kvs e st))"
  using assms by (simp add: process_log_def accepted_state_def Let_def)

lemma process_log_cases:
  assumes "process_log cfg w logv st = Inr st'"
  shows "st' = st \<or>
         (\<exists>kvs e. logv = JObj kvs \<and> st' = check_error_rate cfg w (accepted_state cfg w kvs e st))"
  using assms
  by (auto simp: process_log_def accepted_state_def Let_def
      split: if_splits json.splits sum.splits bool.splits)

lemma accepted_state_window:
  "request_window (accepted_state cfg w kvs e st) =
     window_append (WINDOW_SIZE cfg)
       \<lparr>r_pool = dict_get kvs ''pool'' (JStr []), r_status = dict_get kvs ''status'' (JNum 0),
        r_is_error = e, r_time = dict_get kvs ''time'' (JStr [])\<rparr> (request_window st)"
  by (simp add: accepted_state_def Let_def check_failover_window)

lemma process_log_appends:
  assumes "process_log cfg w logv st = Inr st'"
  shows "st' = st \<or>
         (\<exists>x s. request_window s = window_append (WINDOW_SIZE cfg) x (request_window st)
                \<and> st' = check_error_rate cfg w s)"
  using process_log_cases [OF assms] accepted_state_window by blast




lemmas string_eval =
  py_strip_def py_isspace_def py_isdigit_def py_isdigit_char_def ascii_digit_def
  py_int_def digits_value_def




subsection \<open>C6: is_error\<close>























subsection \<open>C9: health checks\<close>

lemma py_in_returns: "py_in a x = Inr b \<Longrightarrow> \<exists>b'. py_in c x = Inr b'"
  by (cases x) auto

lemma health_check_skipped:
  assumes "py_in ''nginx-health'' (dict_get kvs ''request'' (JStr [])) = Inr True
           \<or> py_in ''healthz'' (dict_get kvs ''request'' (JStr [])) = Inr True"
  shows "process_log cfg w (JObj kvs) st = Inr st"
proof -
  obtain b where "py_in ''nginx-health'' (dict_get kvs ''request'' (JStr [])) = Inr b"
    using assms py_in_returns by blast
  then show ?thesis using assms
    by (cases b) (auto simp: process_log_def Let_def)
qed

lemma health_check_string:
  assumes "dict_get kvs ''request'' (JStr []) = JStr r"
    and "sublist ''nginx-health'' r \<or> sublist ''healthz'' r"
  shows "process_log cfg w (JObj kvs) st = Inr st"
  using assms by (intro health_check_skipped) auto

lemma health_check_line_skipped:
  assumes "health_check_line loads line"
  shows "process_line cfg w loads line st = Inr st"
proof -
  obtain kvs r where "loads line = Some (JObj kvs)" "dict_get kvs ''request'' (JStr []) = JStr r"
    "sublist ''nginx-health'' r \<or> sublist ''healthz'' r"
    using assms by (auto simp: health_check_line_def split: option.splits json.splits)
  then show ?thesis
    by (simp add: process_line_def parse_log_line_def health_check_string)
qed

lemma health_check_batch:
  "list_all (health_check_line loads) lines \<Longrightarrow> second_loop cfg w loads lines st = (None, st)"
  by (induction lines) (simp_all add: health_check_line_skipped)

text \<open>
  Claim C9. A decoded record whose \<^verbatim>\<open>request\<close> holds \<^verbatim>\<open>nginx-health\<close> or
  \<^verbatim>\<open>healthz\<close> ends the iteration at \<^verbatim>\<open>continue\<close> with the state it started from:
  window, \<^verbatim>\<open>last_pool\<close>, both timestamps and the trace are untouched, whatever the other
  fields hold. The same holds for a whole batch of such lines.
\<close>

theorem health_checks_leave_state:
  "(dict_get kvs ''request'' (JStr []) = JStr r
      \<and> (sublist ''nginx-health'' r \<or> sublist ''healthz'' r) \<longrightarrow>
      process_log cfg w (JObj kvs) st = Inr st)
   \<and> (py_in ''nginx-health'' (dict_get kvs ''request'' (JStr [])) = Inr True
        \<or> py_in ''healthz'' (dict_get kvs ''request'' (JStr [])) = Inr True \<longrightarrow>
        process_log cfg w (JObj kvs) st = Inr st)
   \<and> (health_check_line loads line \<longrightarrow> process_line cfg w loads line st = Inr st)
   \<and> (list_all (health_check_line loads) lines \<longrightarrow>
        second_loop cfg w loads lines st = (None, st))"
  using health_check_string [of kvs r cfg w st] health_check_skipped [of kvs cfg w st]
    health_check_line_skipped [of loads line cfg w st] health_check_batch [of loads lines cfg w st]
  by blast

lemma demo_health_line:
  "health_check_line demo_loads
     ''{\"request\":\"GET /healthz HTTP/1.1\",\"pool\":\"green\",\"upstream_status\":\"502\"}\<newline>''"
  by (simp add: health_check_line_def demo_loads_def py_strip_def py_isspace_def dict_get_def
      sublist_Cons_right)

theorem health_checks_leave_state_witness:
  "health_check_line demo_loads
     ''{\"request\":\"GET /healthz HTTP/1.1\",\"pool\":\"green\",\"upstream_status\":\"502\"}\<newline>''
   \<and> process_line demo_config demo_env demo_loads
       ''{\"request\":\"GET /healthz HTTP/1.1\",\"pool\":\"green\",\"upstream_status\":\"502\"}\<newline>''
       demo_breach_state = Inr demo_breach_state
   \<and> second_loop demo_config demo_env demo_loads
       [''{\"request\":\"GET /healthz HTTP/1.1\",\"pool\":\"green\",\"upstream_status\":\"502\"}\<newline>'',
        ''{\"request\":\"GET /healthz HTTP/1.1\",\"pool\":\"green\",\"upstream_status\":\"502\"}\<newline>'']
       demo_breach_state = (None, demo_breach_state)
   \<and> process_log demo_config demo_env
       (JObj [(''request'', JStr ''GET /nginx-health''), (''pool'', JStr ''green'')])
       demo_breach_state = Inr demo_breach_state"
  using health_checks_leave_state
          [where loads=demo_loads and cfg=demo_config and w=demo_env and st=demo_breach_state
             and line="''{\"request\":\"GET /healthz HTTP/1.1\",\"pool\":\"green\",\"upstream_status\":\"502\"}\<newline>''"
             and lines="[''{\"request\":\"GET /healthz HTTP/1.1\",\"pool\":\"green\",\"upstream_status\":\"502\"}\<newline>'',
        ''{\"request\":\"GET /healthz HTTP/1.1\",\"pool\":\"green\",\"upstream_status\":\"502\"}\<newline>'']"
             and kvs="[(''request'', JStr ''GET /nginx-health''), (''pool'', JStr ''green'')]"
             and r="''GET /nginx-health''"]
        demo_health_line
  by (simp add: dict_get_def sublist_Cons_right)

subsection \<open>C8: lines that do not decode, and absent fields\<close>















subsection \<open>The polling round\<close>

lemma first_loop_id: "first_loop loads lines st = st"
  by (induction lines) (simp_all add: Let_def)



lemma demo_file_lines: "readlines demo_file = [demo_file]" "length demo_file = 40"
  by (simp_all add: demo_file_def)

lemma demo_file_decodes:
  "demo_loads demo_file =
     Some (JObj [(''pool'', JStr ''blue''), (''upstream_status'', JStr ''200'')])"
  by (simp add: demo_file_def demo_loads_def py_strip_def py_isspace_def)

lemma demo_file_processed:
  "process_line demo_config demo_env demo_loads demo_file initial_state =
     Inr (initial_state\<lparr>last_pool := JStr ''blue'',
            request_window := [\<lparr>r_pool = JStr ''blue'', r_status = JNum 0, r_is_error = False,
                                r_time = JStr []\<rparr>],
            out := [InitialPoolDetected (JStr ''blue'')]\<rparr>)"
  by (simp add: process_line_def parse_log_line_def demo_file_decodes process_log_def
      dict_get_def compute_is_error_def string_eval sublist_Cons_right window_append_def
      check_failover_def check_error_rate_def emit_def initial_state_def demo_config_def Let_def)

subsection \<open>C10: the first loop\<close>








subsection \<open>C4: truncation and rotation\<close>






subsection \<open>C5: the file present at startup\<close>

text \<open>
  Claim C5 fails on the code. The file present at startup is read and thrown away (the
  comment says: do not process, just skip to end), but \<^verbatim>\<open>last_position\<close> is then set to
  0, so the first round reads the file from its beginning: a line that was there before
  watching began enters the window and becomes the baseline pool.
\<close>

theorem existing_lines_processed:
  "tail_log_file demo_config demo_env demo_loads (Some demo_file) [Some demo_file] initial_state =
     (40, initial_state\<lparr>last_pool := JStr ''blue'',
            request_window := [\<lparr>r_pool = JStr ''blue'', r_status = JNum 0,
                                r_is_error = False, r_time = JStr []\<rparr>],
            out := [InitialPoolDetected (JStr ''blue'')]\<rparr>)"
  by (simp add: tail_log_file_def poll_def first_loop_id demo_file_lines demo_file_processed)

end
